theory Spec2Isabelle
  imports Main
begin

section \<open>Data model of models.py\<close>

text \<open>
  Python exceptions raised by the module or by the list operations it uses. The string is
  the message of the exception.
\<close>

datatype error = IndexError string | ValueError string | TypeError string

text \<open>
  A Keras layer, as far as the module looks at it: the attribute \<open>name\<close> and the call
  \<open>layer(inputs)\<close>. The module always calls a layer with the inputs alone, so what the
  layer computes can depend, besides the inputs, only on the Keras call context the call
  happens in; that context holds the training mode a layer falls back on when it is called
  without a \<open>training\<close> argument. The context is the parameter \<open>'c\<close>, the tensor type the
  parameter \<open>'t\<close>.
\<close>

record ('c, 't) layer =
  name :: string
  call_layer :: "'c \<Rightarrow> 't \<Rightarrow> 't"

text \<open>
  A key handed to \<open>__getitem__\<close>, \<open>get_layer_index\<close> or \<open>indexable_call\<close>: an int, a
  str, a slice (of which the code reads \<open>start\<close> and \<open>stop\<close> only, each possibly
  \<open>None\<close>), or a value of another type. An optional key is \<open>None\<close> or \<open>Some key\<close>.
\<close>

datatype key = KInt int | KStr string | KSlice "key option" "key option" | KOther

text \<open>
  What \<open>get_item\<close> returns: a layer (\<open>layers[i]\<close>), a plain Python list of layers (the
  slice \<open>layers[start:stop]\<close> left as it is) or the Keras \<open>Sequential\<close> built from the
  slice, given by its \<open>layers\<close>.
\<close>

datatype ('c, 't) item =
  Layer "('c, 't) layer" | PyList "('c, 't) layer list" | Sequential "('c, 't) layer list"

text \<open>
  The constructor \<open>Sequential(layers)\<close> belongs to Keras and is a parameter of the model:
  it either raises (Keras refuses, for one, two layers with the same name) or builds a
  model, given here by the \<open>layers\<close> the new model shows (Keras leaves a leading
  InputLayer out of them).
\<close>

type_synonym ('c, 't) sequential_init = "('c, 't) layer list \<Rightarrow> error + ('c, 't) layer list"

section \<open>Python list operations\<close>

definition bind_err :: "error + 'a \<Rightarrow> ('a \<Rightarrow> error + 'b) \<Rightarrow> error + 'b" where
  "bind_err m f = (case m of Inl e \<Rightarrow> Inl e | Inr x \<Rightarrow> f x)"

text \<open>\<open>xs[i]\<close> for an int \<open>i\<close>: negative positions count from the end.\<close>

definition py_getitem :: "'a list \<Rightarrow> int \<Rightarrow> error + 'a" where
  "py_getitem xs i =
     (if i < - int (length xs) \<or> int (length xs) \<le> i
      then Inl (IndexError ''list index out of range'')
      else if i < 0 then Inr (xs ! nat (int (length xs) + i))
      else Inr (xs ! nat i))"

text \<open>
  One bound of \<open>xs[start:stop]\<close>: \<open>None\<close> is the default, an int is shifted by the length
  when negative and clipped to \<open>[0, len]\<close>, anything else is a TypeError.
\<close>

definition slice_bound :: "nat \<Rightarrow> nat \<Rightarrow> key option \<Rightarrow> error + nat" where
  "slice_bound n dflt b =
     (case b of
        None \<Rightarrow> Inr dflt
      | Some (KInt i) \<Rightarrow>
          Inr (if i < 0 then nat (max 0 (int n + i)) else min n (nat i))
      | Some _ \<Rightarrow>
          Inl (TypeError ''slice indices must be integers or None or have an __index__ method''))"

definition py_getslice :: "'a list \<Rightarrow> key option \<Rightarrow> key option \<Rightarrow> error + 'a list" where
  "py_getslice xs start stop =
     bind_err (slice_bound (length xs) 0 start) (\<lambda>lo.
     bind_err (slice_bound (length xs) (length xs) stop) (\<lambda>hi.
       Inr (take (hi - lo) (drop lo xs))))"

section \<open>Network_Indexer\<close>

text \<open>
  The scan of \<open>get_layer_index\<close> for a str key:
  \<^verbatim>\<open>for l, layer in zip(range(len(layers)), layers): if layer.name == key: index = l\<close>.
  It has no \<open>break\<close>; \<open>index\<close> starts as \<open>None\<close>.
\<close>

fun scan_names :: "('c, 't) layer list \<Rightarrow> string \<Rightarrow> nat \<Rightarrow> int option \<Rightarrow> int option" where
  "scan_names [] key l index = index"
| "scan_names (layer # layers) key l index =
     scan_names layers key (Suc l) (if name layer = key then Some (int l) else index)"

text \<open>
  \<open>get_layer_index\<close>. In the int branch the source assigns \<open>index = len(layers) + key\<close>
  when \<open>key < 0\<close> and then assigns \<open>index = key\<close> unconditionally; both assignments are
  kept, in that order. \<open>index\<close> is never \<open>None\<close> at the \<open>return\<close> of the int branch.
\<close>

definition get_layer_index :: "('c, 't) layer list \<Rightarrow> key \<Rightarrow> error + int" where
  "get_layer_index layers key =
     (case key of
        KInt k \<Rightarrow>
          if k \<ge> int (length layers)
          then Inl (IndexError ''Layers out of index. Must have 0 <= key < len(self.layers)'')
          else
            (let index = None;
                 index = (if k < 0 then Some (int (length layers) + k) else index);
                 index = Some k
             in (case index of Some i \<Rightarrow> Inr i
                 | None \<Rightarrow> Inl (TypeError ''index is None'')))
      | KStr s \<Rightarrow>
          (case scan_names layers s 0 None of
             None \<Rightarrow> Inl (ValueError (''No layer named '' @ [CHR 0x27] @ s @ [CHR 0x27]))
           | Some i \<Rightarrow> Inr i)
      | _ \<Rightarrow> Inl (TypeError ([CHR 0x27] @ ''key'' @ [CHR 0x27] @ '' must be an int or str'')))"

text \<open>
  The slice branch of \<open>get_item\<close> up to \<open>layers[start:stop]\<close>: a str \<open>start\<close> is
  replaced by its position, a str \<open>stop\<close> by its position plus one, and the Python slice
  is taken with the two bounds.
\<close>

definition slice_layers :: "('c, 't) layer list \<Rightarrow> key option \<Rightarrow> key option \<Rightarrow> error + ('c, 't) layer list" where
  "slice_layers layers start stop =
     bind_err (case start of
                 Some (KStr s) \<Rightarrow>
                   bind_err (get_layer_index layers (KStr s)) (\<lambda>i. Inr (Some (KInt i)))
               | _ \<Rightarrow> Inr start) (\<lambda>start.
     bind_err (case stop of
                 Some (KStr s) \<Rightarrow>
                   bind_err (get_layer_index layers (KStr s)) (\<lambda>i. Inr (Some (KInt (i + 1))))
               | _ \<Rightarrow> Inr stop) (\<lambda>stop.
       py_getslice layers start stop))"

text \<open>
  \<open>get_item\<close>. An int or str key gives \<open>layers[get_layer_index(layers, key)]\<close>. For a
  slice key, \<open>item = layers[start:stop]\<close> becomes \<open>Sequential(item)\<close> only when
  \<open>len(item) > 1\<close> and is returned as the list it is otherwise.
\<close>

definition get_item ::
  "('c, 't) sequential_init \<Rightarrow> ('c, 't) layer list \<Rightarrow> key \<Rightarrow> error + ('c, 't) item" where
  "get_item Sequential_init layers key =
     (case key of
        KSlice start stop \<Rightarrow>
          bind_err (slice_layers layers start stop) (\<lambda>item.
            if length item > 1
            then bind_err (Sequential_init item) (\<lambda>model. Inr (Sequential model))
            else Inr (PyList item))
      | KOther \<Rightarrow> Inl (IndexError ''Index must be int, str or slice'')
      | _ \<Rightarrow>
          bind_err (get_layer_index layers key) (\<lambda>i.
          bind_err (py_getitem layers i) (\<lambda>l. Inr (Layer l))))"

text \<open>
  The loop of \<open>indexable_call\<close>, \<^verbatim>\<open>for l in range(last+1)\<close>, from position \<open>l\<close> on.
  \<open>inputs\<close> and \<open>outputs\<close> are the two variables of the source (\<open>outputs\<close> starts as
  \<open>None\<close>). \<open>ctx\<close> is the call context the method runs in. \<open>calls\<close> is instrumentation:
  the positions of the layers invoked so far, in the order of invocation.
\<close>

function run_layers ::
  "'c \<Rightarrow> ('c, 't) layer list \<Rightarrow> int \<Rightarrow> int \<Rightarrow> nat \<Rightarrow> 't \<Rightarrow> 't option \<Rightarrow> nat list
     \<Rightarrow> error + ('t option \<times> nat list)" where
  "run_layers ctx layers start last' l inputs outputs calls =
     (if last' + 1 \<le> int l then Inr (outputs, calls)
      else if int l < start then run_layers ctx layers start last' (Suc l) inputs outputs calls
      else
        (case py_getitem layers (int l) of
           Inl e \<Rightarrow> Inl e
         | Inr layer \<Rightarrow>
             if int l = last'
             then Inr (Some (call_layer layer ctx inputs), calls @ [l])
             else run_layers ctx layers start last' (Suc l)
                    (call_layer layer ctx inputs) (Some (call_layer layer ctx inputs))
                    (calls @ [l])))"
  by pat_completeness auto
termination
  by (relation "measure (\<lambda>(ctx, layers, start, last', l, inputs, outputs, calls).
        nat (last' + 1 - int l))")
     auto

declare run_layers.simps [simp del]

text \<open>
  \<open>indexable_call\<close>: \<open>start\<close> and \<open>last\<close> default to \<open>0\<close> and \<open>len(layers) - 1\<close> and are
  replaced by the resolved keys when the keys are not \<open>None\<close>. The result is the returned
  \<open>outputs\<close> (possibly \<open>None\<close>) with the positions of the invoked layers.
\<close>

definition indexable_call ::
  "'c \<Rightarrow> ('c, 't) layer list \<Rightarrow> 't \<Rightarrow> key option \<Rightarrow> key option
     \<Rightarrow> error + ('t option \<times> nat list)" where
  "indexable_call ctx layers inputs start_layer last_layer =
     bind_err (case start_layer of
                 None \<Rightarrow> Inr 0
               | Some k \<Rightarrow> get_layer_index layers k) (\<lambda>start.
     bind_err (case last_layer of
                 None \<Rightarrow> Inr (int (length layers) - 1)
               | Some k \<Rightarrow> get_layer_index layers k) (\<lambda>last'.
       run_layers ctx layers start last' 0 inputs None []))"

section \<open>Powered_Sequential and Powered_Model\<close>

text \<open>
  Both classes hold \<open>self.layers\<close> and delegate to the indexer. \<open>call\<close> takes the argument
  \<open>training\<close> and hands the indexer \<open>self.layers\<close>, the inputs and the two keys.
\<close>

definition Powered_Sequential_len :: "('c, 't) layer list \<Rightarrow> nat" where
  "Powered_Sequential_len layers = length layers"

definition Powered_Sequential_getitem ::
  "('c, 't) sequential_init \<Rightarrow> ('c, 't) layer list \<Rightarrow> key \<Rightarrow> error + ('c, 't) item" where
  "Powered_Sequential_getitem Sequential_init layers key = get_item Sequential_init layers key"

definition Powered_Sequential_call ::
  "'c \<Rightarrow> ('c, 't) layer list \<Rightarrow> 't \<Rightarrow> bool \<Rightarrow> key option \<Rightarrow> key option
     \<Rightarrow> error + ('t option \<times> nat list)" where
  "Powered_Sequential_call ctx layers inputs training start_layer last_layer =
     indexable_call ctx layers inputs start_layer last_layer"

definition Powered_Model_len :: "('c, 't) layer list \<Rightarrow> nat" where
  "Powered_Model_len layers = length layers"

definition Powered_Model_getitem ::
  "('c, 't) sequential_init \<Rightarrow> ('c, 't) layer list \<Rightarrow> key \<Rightarrow> error + ('c, 't) item" where
  "Powered_Model_getitem Sequential_init layers key = get_item Sequential_init layers key"

definition Powered_Model_call ::
  "'c \<Rightarrow> ('c, 't) layer list \<Rightarrow> 't \<Rightarrow> bool \<Rightarrow> key option \<Rightarrow> key option
     \<Rightarrow> error + ('t option \<times> nat list)" where
  "Powered_Model_call ctx layers inputs training start_layer last_layer =
     indexable_call ctx layers inputs start_layer last_layer"

section \<open>BaseNet\<close>

text \<open>
  What \<open>BaseNet.__init__\<close> takes from Keras, numpy and \<open>base_models.vgg16_new\<close>, as
  parameters, each with the exception it may raise:
  \<^item> \<open>VGG16 include_top input_shape\<close>: the \<open>layers\<close> of the architecture;
  \<^item> \<open>MaxPool2D name\<close> and \<open>Conv2D filters kernel_size dilation_rate name\<close>: the new
    head layers;
  \<^item> \<open>Sequential_init layers\<close>: \<open>self.layers\<close> after \<open>Sequential.__init__\<close>;
  \<^item> \<open>get_weights layer\<close>: the two arrays \<open>layer.get_weights()\<close> unpacks into;
  \<^item> \<open>choice shape w\<close>: the two arrays of one run of \<open>np.random.choice\<close> on the arrays
    \<open>w\<close>, the kernel drawn in the given shape and 1024 biases;
  \<^item> \<open>set_weights layer w\<close>: the layer after \<open>layer.set_weights(w)\<close>.
\<close>

record ('c, 't, 's, 'w) keras =
  VGG16 :: "bool \<Rightarrow> 's option \<Rightarrow> error + ('c, 't) layer list"
  MaxPool2D :: "string \<Rightarrow> ('c, 't) layer"
  Conv2D :: "nat \<Rightarrow> nat \<Rightarrow> nat \<Rightarrow> string \<Rightarrow> ('c, 't) layer"
  Sequential_init :: "('c, 't) sequential_init"
  get_weights :: "('c, 't) layer \<Rightarrow> error + 'w"
  choice :: "nat list \<Rightarrow> 'w \<Rightarrow> error + 'w"
  set_weights :: "('c, 't) layer \<Rightarrow> 'w \<Rightarrow> error + ('c, 't) layer"

text \<open>The objects a constructor builds, in the order it builds them.\<close>

datatype built = Built_VGG16 bool | Built_MaxPool2D | Built_Conv2D string | Built_Sequential

text \<open>
  Step 4 of \<open>BaseNet.__init__\<close>, after \<open>super().__init__\<close> has set \<open>self.layers\<close>: the
  weights of \<open>head_layers[0]\<close> and \<open>head_layers[1]\<close> are read, then \<open>self.layers[-2]\<close> and
  \<open>self.layers[-1]\<close> get the arrays drawn from them. The result is \<open>self.layers\<close> with
  the two layers as \<open>set_weights\<close> leaves them.
\<close>

definition copy_head_weights ::
  "('c, 't, 's, 'w) keras \<Rightarrow> ('c, 't) layer list \<Rightarrow> ('c, 't) layer list
     \<Rightarrow> error + ('c, 't) layer list" where
  "copy_head_weights k head_layers self_layers =
     bind_err (py_getitem head_layers 0) (\<lambda>fc6_layer.
     bind_err (get_weights k fc6_layer) (\<lambda>fc6.
     bind_err (py_getitem head_layers 1) (\<lambda>fc7_layer.
     bind_err (get_weights k fc7_layer) (\<lambda>fc7.
     bind_err (py_getitem self_layers (- 2)) (\<lambda>conv6.
     bind_err (choice k [3, 3, 512, 1024] fc6) (\<lambda>w6.
     bind_err (set_weights k conv6 w6) (\<lambda>conv6.
     bind_err (py_getitem self_layers (- 1)) (\<lambda>conv7.
     bind_err (choice k [1, 1, 1024, 1024] fc7) (\<lambda>w7.
     bind_err (set_weights k conv7 w7) (\<lambda>conv7.
       Inr (self_layers [length self_layers - 2 := conv6,
                         length self_layers - 1 := conv7])))))))))))"

text \<open>
  \<open>BaseNet.__init__\<close>. The result is the list of what was built together with either the
  exception or \<open>self.layers\<close> of the finished model. For a name that is none of the three
  aliases the \<open>raise\<close> of the \<open>else\<close> branch is the only statement that runs.
\<close>

definition BaseNet_init ::
  "('c, 't, 's, 'w) keras \<Rightarrow> string \<Rightarrow> 's
     \<Rightarrow> built list \<times> (error + ('c, 't) layer list)" where
  "BaseNet_init k architecture input_shape =
     (if architecture \<in> set [''VGG16'', ''VGG-16'', ''VGG_16''] then
        (case VGG16 k False (Some input_shape) of
           Inl e \<Rightarrow> ([], Inl e)
         | Inr arch \<Rightarrow>
             (let base_layers = butlast arch in
              case VGG16 k True None of
                Inl e \<Rightarrow> ([Built_VGG16 False], Inl e)
              | Inr dummy_arch \<Rightarrow>
                  (let head_layers = drop (length dummy_arch - 3) dummy_arch in
                   case py_getitem arch (- 1) of
                     Inl e \<Rightarrow> ([Built_VGG16 False, Built_VGG16 True], Inl e)
                   | Inr top_layer \<Rightarrow>
                       (let base_layers = base_layers @
                              [MaxPool2D k (name top_layer),
                               Conv2D k 1024 3 6 ''head_conv6'',
                               Conv2D k 1024 1 1 ''head_conv7''];
                            built = [Built_VGG16 False, Built_VGG16 True, Built_MaxPool2D,
                                     Built_Conv2D ''head_conv6'', Built_Conv2D ''head_conv7'']
                        in case Sequential_init k base_layers of
                             Inl e \<Rightarrow> (built, Inl e)
                           | Inr self_layers \<Rightarrow>
                               (built @ [Built_Sequential],
                                copy_head_weights k head_layers self_layers)))))
      else ([], Inl (TypeError ''Wrong name for the base architecture'')))"

section \<open>DetectorNet\<close>

text \<open>
  \<open>input_layers\<close> holds Keras tensors (type \<open>'s\<close>): the constructor applies the predictors
  to them. \<open>layers\<close> is \<open>self.layers\<close> of the Keras \<open>Model\<close>.
\<close>

record ('c, 't, 's) DetectorNet =
  layers :: "('c, 't) layer list"
  input_layers :: "'s list"
  predictors :: "('c, 't) layer list"



definition DetectorNet_len :: "('c, 't, 's) DetectorNet \<Rightarrow> nat" where
  "DetectorNet_len self = length (layers self)"



section \<open>Dummy layers\<close>

text \<open>
  Dummies for the concrete instances below, over natural numbers and with the training
  mode as the call context. \<open>dummy s k\<close> appends the digit \<open>k\<close> to its input, so that an
  output shows which layers ran and in which order. \<open>dropout s\<close> depends on the mode: it
  gives 0 in training mode and its input otherwise. \<open>input_layer s\<close> returns its input, as
  a Keras InputLayer does. \<open>unique_names\<close> is a \<open>Sequential\<close> constructor that refuses a
  repeated layer name and shows the layers it is given.
\<close>

abbreviation dummy :: "string \<Rightarrow> nat \<Rightarrow> (bool, nat) layer" where
  "dummy s k \<equiv> \<lparr>name = s, call_layer = (\<lambda>training x. 10 * x + k)\<rparr>"



abbreviation unique_names :: "(bool, nat) sequential_init" where
  "unique_names ls \<equiv>
     (if distinct (map name ls) then Inr ls
      else Inl (ValueError ''All layers added to a Sequential model should have unique names''))"

section \<open>Auxiliary facts\<close>

subsection \<open>Position resolution\<close>

lemma bind_err_simps:
  "bind_err (Inl e) f = Inl e"
  "bind_err (Inr v) f = f v"
  by (simp_all add: bind_err_def)

lemma get_layer_index_int:
  "get_layer_index S (KInt k) =
     (if int (length S) \<le> k
      then Inl (IndexError ''Layers out of index. Must have 0 <= key < len(self.layers)'')
      else Inr k)"
  by (simp add: get_layer_index_def)

lemma scan_names_none:
  "\<forall>y \<in> set xs. name y \<noteq> key \<Longrightarrow> scan_names xs key l idx = idx"
  by (induction xs arbitrary: l idx) auto

lemma scan_names_last_match:
  "i < length xs \<Longrightarrow> name (xs ! i) = key
     \<Longrightarrow> (\<And>j. i < j \<Longrightarrow> j < length xs \<Longrightarrow> name (xs ! j) \<noteq> key)
     \<Longrightarrow> scan_names xs key l idx = Some (int (l + i))"
proof (induction xs arbitrary: i l idx)
  case Nil
  then show ?case by simp
next
  case (Cons y ys)
  show ?case
  proof (cases i)
    case 0
    have "\<forall>z \<in> set ys. name z \<noteq> key"
    proof
      fix z assume "z \<in> set ys"
      then obtain j where j: "j < length ys" "ys ! j = z"
        by (auto simp: in_set_conv_nth)
      from Cons.prems(3) [of "Suc j"] 0 j show "name z \<noteq> key" by auto
    qed
    then have "scan_names ys key (Suc l) (Some (int l)) = Some (int l)"
      by (rule scan_names_none)
    with 0 Cons.prems(2) show ?thesis by simp
  next
    case (Suc i')
    have "scan_names ys key (Suc l) (if name y = key then Some (int l) else idx)
            = Some (int (Suc l + i'))"
    proof (rule Cons.IH)
      show "i' < length ys" using Cons.prems(1) Suc by simp
      show "name (ys ! i') = key" using Cons.prems(2) Suc by simp
      fix j assume "i' < j" "j < length ys"
      with Cons.prems(3) [of "Suc j"] Suc show "name (ys ! j) \<noteq> key" by auto
    qed
    with Suc show ?thesis by simp
  qed
qed

lemma scan_names_range:
  "scan_names xs key l idx = Some i \<Longrightarrow>
     idx = Some i \<or> (int l \<le> i \<and> i < int (l + length xs))"
proof (induction xs arbitrary: l idx)
  case Nil
  then show ?case by simp
next
  case (Cons y ys)
  from Cons.IH [OF Cons.prems [simplified]] show ?case
    by (auto split: if_splits)
qed

lemma get_layer_index_upper:
  "get_layer_index S k = Inr i \<Longrightarrow> i < int (length S)"
proof (cases k)
  case (KInt n)
  then show "get_layer_index S k = Inr i \<Longrightarrow> i < int (length S)"
    by (auto simp: get_layer_index_int split: if_splits)
next
  case (KStr s)
  assume "get_layer_index S k = Inr i"
  with KStr have "scan_names S s 0 None = Some i"
    by (auto simp: get_layer_index_def split: option.splits)
  from scan_names_range [OF this] show "i < int (length S)" by simp
qed (auto simp: get_layer_index_def)

subsection \<open>The loop of indexable_call\<close>

lemma run_layers_empty_range:
  "last' < start \<Longrightarrow> run_layers ctx S start last' l x out calls = Inr (out, calls)"
proof (induction "nat (last' + 1 - int l)" arbitrary: l)
  case 0
  then show ?case by (subst run_layers.simps) simp
next
  case (Suc m)
  then have "m = nat (last' + 1 - int (Suc l))" by simp
  from Suc.hyps(1) [OF this Suc.prems] Suc.prems show ?case
    by (subst run_layers.simps) simp
qed

lemma run_layers_skip:
  "l \<le> k1 \<Longrightarrow> k1 \<le> k2 \<Longrightarrow>
     run_layers ctx S (int k1) (int k2) l x out calls =
     run_layers ctx S (int k1) (int k2) k1 x out calls"
proof (induction "k1 - l" arbitrary: l)
  case 0
  then show ?case by simp
next
  case (Suc m)
  then have m: "m = k1 - Suc l" "Suc l \<le> k1" and lt: "l < k1" by simp_all
  have "run_layers ctx S (int k1) (int k2) l x out calls =
        run_layers ctx S (int k1) (int k2) (Suc l) x out calls"
    using lt Suc.prems(2) by (subst run_layers.simps) simp
  also have "\<dots> = run_layers ctx S (int k1) (int k2) k1 x out calls"
    by (rule Suc.hyps(1) [OF m Suc.prems(2)])
  finally show ?case .
qed

lemma run_layers_chain:
  "k1 \<le> l \<Longrightarrow> l \<le> k2 \<Longrightarrow> k2 < length S \<Longrightarrow>
     run_layers ctx S (int k1) (int k2) l x out calls =
     Inr (Some (call_layer (S ! k2) ctx (fold (\<lambda>layer. call_layer layer ctx) (map ((!) S) [l..<k2]) x)),
          calls @ [l..<Suc k2])"
proof (induction "k2 - l" arbitrary: l x out calls)
  case 0
  then have "l = k2" by simp
  with 0 show ?case by (subst run_layers.simps) (simp add: py_getitem_def)
next
  case (Suc m)
  then have m: "m = k2 - Suc l" and l: "l < k2" "k1 \<le> Suc l" "Suc l \<le> k2" by simp_all
  have get: "py_getitem S (int l) = Inr (S ! l)"
    using l Suc.prems by (simp add: py_getitem_def)
  have upt: "[l..<k2] = l # [Suc l..<k2]" "[l..<Suc k2] = l # [Suc l..<Suc k2]"
    using l by (simp_all add: upt_conv_Cons)
  have "run_layers ctx S (int k1) (int k2) l x out calls =
        run_layers ctx S (int k1) (int k2) (Suc l) (call_layer (S ! l) ctx x)
          (Some (call_layer (S ! l) ctx x)) (calls @ [l])"
    using l Suc.prems get by (subst run_layers.simps) simp
  also have "\<dots> = Inr (Some (call_layer (S ! k2) ctx
                      (fold (\<lambda>layer. call_layer layer ctx) (map ((!) S) [Suc l..<k2]) (call_layer (S ! l) ctx x))),
                    (calls @ [l]) @ [Suc l..<Suc k2])"
    by (rule Suc.hyps(1) [OF m l(2) l(3) Suc.prems(3)])
  finally show ?case by (simp only: upt list.map fold_Cons comp_apply append_assoc append_Cons append_Nil)
qed

lemma indexable_call_range:
  assumes "get_layer_index S sk = Inr (int k1)" "get_layer_index S lk = Inr (int k2)" "k1 \<le> k2"
  shows "indexable_call ctx S x (Some sk) (Some lk) =
         Inr (Some (call_layer (S ! k2) ctx (fold (\<lambda>layer. call_layer layer ctx) (map ((!) S) [k1..<k2]) x)),
              [k1..<Suc k2])"
proof -
  from get_layer_index_upper [OF assms(2)] have k2: "k2 < length S" by simp
  have "indexable_call ctx S x (Some sk) (Some lk) = run_layers ctx S (int k1) (int k2) 0 x None []"
    using assms by (simp add: indexable_call_def bind_err_simps)
  also have "\<dots> = run_layers ctx S (int k1) (int k2) k1 x None []"
    by (rule run_layers_skip) (use assms in simp_all)
  also have "\<dots> = Inr (Some (call_layer (S ! k2) ctx (fold (\<lambda>layer. call_layer layer ctx) (map ((!) S) [k1..<k2]) x)),
                    [] @ [k1..<Suc k2])"
    by (rule run_layers_chain) (use assms k2 in simp_all)
  finally show ?thesis by simp
qed


subsection \<open>Slices\<close>

lemma take_drop_upt:
  "e \<le> length xs \<Longrightarrow> take (e - a) (drop a xs) = map ((!) xs) [a..<e]"
  by (rule nth_equalityI) simp_all

lemma py_getslice_int:
  assumes "e \<le> length xs"
  shows "py_getslice xs (Some (KInt (int a))) (Some (KInt (int e))) = Inr (map ((!) xs) [a..<e])"
proof (cases "a \<le> length xs")
  case True
  with assms show ?thesis
    by (simp add: py_getslice_def slice_bound_def bind_err_simps take_drop_upt min_absorb2)
next
  case False
  with assms show ?thesis
    by (simp add: py_getslice_def slice_bound_def bind_err_simps)
qed

lemma slice_layers_str_stop:
  "get_layer_index S (KStr B) = Inr b \<Longrightarrow>
     slice_layers S start (Some (KStr B)) = slice_layers S start (Some (KInt (b + 1)))"
  by (simp add: slice_layers_def bind_err_simps)

lemma slice_layers_str_start:
  "get_layer_index S (KStr A) = Inr a \<Longrightarrow>
     slice_layers S (Some (KStr A)) stop = slice_layers S (Some (KInt a)) stop"
  by (simp add: slice_layers_def bind_err_simps)

lemma slice_layers_int:
  "e \<le> length S \<Longrightarrow>
     slice_layers S (Some (KInt (int a))) (Some (KInt (int e))) = Inr (map ((!) S) [a..<e])"
  by (simp add: slice_layers_def bind_err_simps py_getslice_int)

lemma slice_layers_names:
  assumes "get_layer_index S (KStr A) = Inr (int i)" "get_layer_index S (KStr B) = Inr (int j)"
  shows "slice_layers S (Some (KStr A)) (Some (KStr B)) = Inr (map ((!) S) [i..<Suc j])"
proof -
  from get_layer_index_upper [OF assms(2)] have j: "Suc j \<le> length S" by simp
  have "slice_layers S (Some (KStr A)) (Some (KStr B)) =
        slice_layers S (Some (KInt (int i))) (Some (KInt (int (Suc j))))"
    using assms by (simp add: slice_layers_str_start slice_layers_str_stop add.commute)
  also have "\<dots> = Inr (map ((!) S) [i..<Suc j])"
    using j by (rule slice_layers_int)
  finally show ?thesis .
qed

lemma slice_layers_no_start:
  "slice_layers S None stop = slice_layers S (Some (KInt 0)) stop"
  by (simp add: slice_layers_def bind_err_simps py_getslice_def slice_bound_def)

lemma slice_layers_no_stop:
  "slice_layers S start None = slice_layers S start (Some (KInt (int (length S))))"
  by (simp add: slice_layers_def bind_err_simps py_getslice_def slice_bound_def)

lemma get_item_slice:
  "get_item Seq S (KSlice start stop) =
     bind_err (slice_layers S start stop)
       (\<lambda>item. if 1 < length item
                then bind_err (Seq item) (\<lambda>model. Inr (Sequential model))
                else Inr (PyList item))"
  by (simp add: get_item_def)

subsection \<open>Slices through get_item\<close>

lemma get_item_names:
  assumes "get_layer_index S (KStr A) = Inr (int i)" "get_layer_index S (KStr B) = Inr (int j)"
  shows "get_item Seq S (KSlice (Some (KStr A)) (Some (KStr B))) =
           (if i < j
            then bind_err (Seq (map ((!) S) [i..<Suc j])) (\<lambda>model. Inr (Sequential model))
            else Inr (PyList (map ((!) S) [i..<Suc j])))"
proof -
  have "(1 < Suc j - i) = (i < j)" by auto
  then show ?thesis
    by (simp add: get_item_slice slice_layers_names [OF assms] bind_err_simps del: upt_Suc)
qed

lemma get_item_ints:
  assumes "j \<le> length S"
  shows "get_item Seq S (KSlice (Some (KInt (int i))) (Some (KInt (int j)))) =
           (if Suc i < j
            then bind_err (Seq (map ((!) S) [i..<j])) (\<lambda>model. Inr (Sequential model))
            else Inr (PyList (map ((!) S) [i..<j])))"
proof -
  have "(1 < j - i) = (Suc i < j)" by auto
  then show ?thesis
    by (simp add: get_item_slice slice_layers_int [OF assms] bind_err_simps)
qed

subsection \<open>The branches of DetectorNet.call\<close>



section \<open>Partial execution\<close>

text \<open>
  Claim C1, as stated: when the resolved positions satisfy \<open>start > last\<close>, the call
  raises InvalidExecutionRange. The module has no such exception and no check of the two
  positions against each other. On five layers, \<open>call(x, start_layer=4, last_layer=1)\<close>
  returns normally, with \<open>None\<close> as its value and no layer invoked.
\<close>

theorem indexable_call_reversed_range_counterexample:
  "indexable_call True [dummy ''a'' 1, dummy ''b'' 2, dummy ''c'' 3, dummy ''d'' 4, dummy ''e'' 5]
     0 (Some (KInt 4)) (Some (KInt 1)) = Inr (None, [])"
  by (simp add: indexable_call_def get_layer_index_int bind_err_simps run_layers_empty_range)

text \<open>
  Claim C1, amended: for every layer sequence and every pair of optional keys whose
  positions (the defaults \<open>0\<close> and \<open>len(layers) - 1\<close> for a key that is \<open>None\<close>) resolve
  without error to \<open>start > last\<close>, \<open>indexable_call\<close> raises nothing, invokes no layer and
  returns \<open>None\<close>.
\<close>

theorem indexable_call_reversed_range:
  assumes "(case start_layer of None \<Rightarrow> Inr 0 | Some k \<Rightarrow> get_layer_index S k) = Inr start"
    and "(case last_layer of None \<Rightarrow> Inr (int (length S) - 1)
          | Some k \<Rightarrow> get_layer_index S k) = Inr last'"
    and "last' < start"
  shows "indexable_call ctx S x start_layer last_layer = Inr (None, [])"
  using assms by (simp add: indexable_call_def bind_err_simps run_layers_empty_range)

text \<open>
  Claim C1, amended, at concrete inputs: three layers with \<open>start_layer = 2\<close> and
  \<open>last_layer = 'a'\<close> (position 0), and the empty sequence with both keys left out
  (\<open>start = 0\<close>, \<open>last = -1\<close>).
\<close>

theorem indexable_call_reversed_range_witness:
  "indexable_call True [dummy ''a'' 1, dummy ''b'' 2, dummy ''c'' 3] 7
       (Some (KInt 2)) (Some (KStr ''a''))
     = Inr (None, []) \<and>
   indexable_call True ([] :: (bool, nat) layer list) 7 None None = Inr (None, [])"
  using indexable_call_reversed_range
          [where start_layer = "Some (KInt 2)" and S = "[dummy ''a'' 1, dummy ''b'' 2, dummy ''c'' 3]"
             and start = 2 and last_layer = "Some (KStr ''a'')" and last' = 0 and x = 7
             and ctx = True]
        indexable_call_reversed_range
          [where start_layer = None and S = "[] :: (bool, nat) layer list" and start = 0
             and last_layer = None and last' = "- 1" and x = 7 and ctx = True]
  by (simp add: get_layer_index_def)

text \<open>
  Claim C4: when the start key resolves to position \<open>k1\<close> and the last key to position
  \<open>k2\<close> with \<open>k1 \<le> k2\<close>, the call invokes exactly the layers at positions
  \<open>k1, k1 + 1, ..., k2\<close>, in ascending order and each once (no layer before \<open>k1\<close>, none
  after \<open>k2\<close>), feeds each layer the output of the one before it, starting from the
  input, and returns the output of the layer at \<open>k2\<close>. \<open>Powered_Sequential.call\<close> and
  \<open>Powered_Model.call\<close> are this call.
\<close>

theorem indexable_call_executes_range:
  assumes "get_layer_index S sk = Inr (int k1)" "get_layer_index S lk = Inr (int k2)" "k1 \<le> k2"
  shows "indexable_call ctx S x (Some sk) (Some lk) =
           Inr (Some (call_layer (S ! k2) ctx
                        (fold (\<lambda>layer. call_layer layer ctx) (map ((!) S) [k1..<k2]) x)),
                [k1..<Suc k2])
       \<and> Powered_Sequential_call ctx S x training (Some sk) (Some lk) =
           indexable_call ctx S x (Some sk) (Some lk)
       \<and> Powered_Model_call ctx S x training (Some sk) (Some lk) =
           indexable_call ctx S x (Some sk) (Some lk)"
  using indexable_call_range [OF assms]
  by (simp add: Powered_Sequential_call_def Powered_Model_call_def)

text \<open>
  Claim C4 at a concrete input: five dummy layers, from position 1 to the layer named
  \<open>'d'\<close> (position 3). Layers 1, 2 and 3 run, in that order.
\<close>

theorem indexable_call_executes_range_witness:
  "indexable_call True [dummy ''a'' 1, dummy ''b'' 2, dummy ''c'' 3, dummy ''d'' 4, dummy ''e'' 5]
     0 (Some (KInt 1)) (Some (KStr ''d'')) = Inr (Some 234, [1, 2, 3])"
  using indexable_call_executes_range
    [where S = "[dummy ''a'' 1, dummy ''b'' 2, dummy ''c'' 3, dummy ''d'' 4, dummy ''e'' 5]"
       and sk = "KInt 1" and ?k1.0 = 1 and lk = "KStr ''d''" and ?k2.0 = 3 and x = 0
       and training = False and ctx = True]
  by (simp add: get_layer_index_def upt_conv_Cons)

text \<open>
  Claim C8, as stated for every sequence: it fails on the empty sequence, where the call
  without keys returns \<open>None\<close> and the call with \<open>start_layer = 0\<close> and
  \<open>last_layer = len(S) - 1 = -1\<close> raises the IndexError of \<open>get_layer_index\<close>, since
  \<open>0 >= len(layers)\<close>.
\<close>

theorem default_keys_empty_counterexample:
  "indexable_call True ([] :: (bool, nat) layer list) 0 None None \<noteq>
   indexable_call True ([] :: (bool, nat) layer list) 0 (Some (KInt 0))
     (Some (KInt (int (length ([] :: (bool, nat) layer list)) - 1)))"
  by (simp add: indexable_call_def get_layer_index_int bind_err_simps run_layers_empty_range)

text \<open>
  Claim C8, amended: for every non-empty sequence and every input, the call without keys
  returns what the call with \<open>start_layer = 0\<close> and \<open>last_layer = len(S) - 1\<close> returns.
\<close>

theorem default_keys_nonempty:
  assumes "S \<noteq> []"
  shows "indexable_call ctx S x None None =
           indexable_call ctx S x (Some (KInt 0)) (Some (KInt (int (length S) - 1)))
       \<and> Powered_Sequential_call ctx S x training None None =
           Powered_Sequential_call ctx S x training (Some (KInt 0)) (Some (KInt (int (length S) - 1)))
       \<and> Powered_Model_call ctx S x training None None =
           Powered_Model_call ctx S x training (Some (KInt 0)) (Some (KInt (int (length S) - 1)))"
  using assms
  by (simp add: Powered_Sequential_call_def Powered_Model_call_def indexable_call_def
        get_layer_index_int bind_err_simps)

text \<open>
  Claim C8, amended, at a concrete input: two dummy layers.
\<close>

theorem default_keys_nonempty_witness:
  "[dummy ''a'' 1, dummy ''b'' 2] \<noteq> [] \<and>
   indexable_call True [dummy ''a'' 1, dummy ''b'' 2] 0 None None =
     indexable_call True [dummy ''a'' 1, dummy ''b'' 2] 0 (Some (KInt 0)) (Some (KInt 1))"
  using default_keys_nonempty
          [where S = "[dummy ''a'' 1, dummy ''b'' 2]" and x = 0 and training = False and ctx = True]
  by simp



section \<open>Position resolution and item access\<close>

text \<open>
  Claim C2 says that a negative int key \<open>k\<close> resolves to \<open>n + k\<close>, that the returned
  position lies in \<open>[0, n)\<close>, and that a key outside that range after normalisation is an
  IndexOutOfRange. The code computes \<open>len(layers) + key\<close> and overwrites it with \<open>key\<close> on
  the next line, and it checks the upper bound only. On three layers the key \<open>-1\<close>
  resolves to \<open>-1\<close>, not \<open>2\<close>, and the key \<open>-5\<close> resolves to \<open>-5\<close> with no error.
\<close>

theorem get_layer_index_negative_key:
  "get_layer_index [a, b, c] (KInt (- 1)) = Inr (- 1) \<and>
   get_layer_index [a, b, c] (KInt (- 5)) = Inr (- 5)"
  by (simp add: get_layer_index_def)

text \<open>
  Claim C5: for a str key, \<open>get_layer_index\<close> raises the ValueError (UnknownLayerName)
  when no layer of the sequence has the key as its name, and otherwise returns the
  position of the last layer with that name: the position \<open>i\<close> whose layer has the name
  while no layer after \<open>i\<close> has it.
\<close>

theorem get_layer_index_name:
  "(key \<notin> name ` set S \<longrightarrow>
      get_layer_index S (KStr key) =
        Inl (ValueError (''No layer named '' @ [CHR 0x27] @ key @ [CHR 0x27])))
   \<and> (i < length S \<and> name (S ! i) = key \<and> key \<notin> name ` set (drop (Suc i) S) \<longrightarrow>
      get_layer_index S (KStr key) = Inr (int i))"
proof (intro conjI impI)
  assume "key \<notin> name ` set S"
  then have "scan_names S key 0 None = None"
    by (intro scan_names_none) auto
  then show "get_layer_index S (KStr key) =
        Inl (ValueError (''No layer named '' @ [CHR 0x27] @ key @ [CHR 0x27]))"
    by (simp add: get_layer_index_def)
next
  assume h: "i < length S \<and> name (S ! i) = key \<and> key \<notin> name ` set (drop (Suc i) S)"
  have "scan_names S key 0 None = Some (int (0 + i))"
  proof (rule scan_names_last_match)
    show "i < length S" "name (S ! i) = key" using h by simp_all
    fix j assume j: "i < j" "j < length S"
    then have "S ! j = drop (Suc i) S ! (j - Suc i)" "j - Suc i < length (drop (Suc i) S)"
      by simp_all
    then have "S ! j \<in> set (drop (Suc i) S)"
      by (metis nth_mem)
    then have "name (S ! j) \<in> name ` set (drop (Suc i) S)"
      by (rule imageI)
    with h show "name (S ! j) \<noteq> key" by blast
  qed
  then show "get_layer_index S (KStr key) = Inr (int i)"
    by (simp add: get_layer_index_def)
qed

text \<open>
  Claim C5 at concrete inputs: of three layers the first and the third are named
  \<open>'conv'\<close>; \<open>'ghost'\<close> is not found and \<open>'conv'\<close> resolves to position 2.
\<close>

theorem get_layer_index_name_witness:
  "get_layer_index [dummy ''conv'' 1, dummy ''pool'' 2, dummy ''conv'' 3] (KStr ''ghost'') =
     Inl (ValueError (''No layer named '' @ [CHR 0x27] @ ''ghost'' @ [CHR 0x27]))
   \<and> get_layer_index [dummy ''conv'' 1, dummy ''pool'' 2, dummy ''conv'' 3] (KStr ''conv'') = Inr 2"
  using get_layer_index_name
          [where key = "''ghost''" and S = "[dummy ''conv'' 1, dummy ''pool'' 2, dummy ''conv'' 3]"
             and i = 0]
        get_layer_index_name
          [where key = "''conv''" and S = "[dummy ''conv'' 1, dummy ''pool'' 2, dummy ''conv'' 3]"
             and i = 2]
  by simp

text \<open>
  Claim C7, as stated for every slice key: a name range \<open>[A:B]\<close> includes the layer named
  \<open>B\<close>. It does not when \<open>A\<close> lies after \<open>B\<close>: on the layers \<open>a, b, c\<close> the range
  \<open>['c':'a']\<close> is \<open>layers[2:1]\<close>, the empty list.
\<close>

theorem name_range_reversed_counterexample:
  "get_item unique_names [dummy ''a'' 1, dummy ''b'' 2, dummy ''c'' 3]
     (KSlice (Some (KStr ''c'')) (Some (KStr ''a''))) = Inr (PyList [])"
  by (simp add: get_item_def slice_layers_def get_layer_index_def py_getslice_def slice_bound_def
        bind_err_simps)

text \<open>
  Claim C7, amended: in a slice key, a str \<open>stop\<close> that resolves to position \<open>b\<close> acts
  as the int \<open>stop\<close> \<open>b + 1\<close>. So for names \<open>A\<close> at position \<open>i\<close> and \<open>B\<close> at position \<open>j\<close>
  with \<open>i \<le> j\<close>, \<open>get_item\<close> takes the layers at \<open>i, ..., j\<close>, the layer named \<open>B\<close>
  included as the last one (alone as a list when \<open>i = j\<close>, handed to \<open>Sequential\<close>
  otherwise); when \<open>A\<close> lies after \<open>B\<close> the result is the empty list. An int \<open>stop\<close> \<open>j\<close>
  is exclusive: \<open>get_item\<close> takes the layers at \<open>i, ..., j - 1\<close>. A missing \<open>start\<close> acts
  as \<open>0\<close> and a missing \<open>stop\<close> as the length of the sequence.
\<close>

theorem slice_bounds:
  "(get_layer_index S (KStr B) = Inr b \<longrightarrow>
      get_item Seq S (KSlice start (Some (KStr B))) =
      get_item Seq S (KSlice start (Some (KInt (b + 1)))))
   \<and> (get_layer_index S (KStr A) = Inr (int i) \<and> get_layer_index S (KStr B) = Inr (int j)
        \<and> i \<le> j \<longrightarrow>
      get_item Seq S (KSlice (Some (KStr A)) (Some (KStr B))) =
        (if i < j
         then bind_err (Seq (map ((!) S) [i..<j] @ [S ! j])) (\<lambda>model. Inr (Sequential model))
         else Inr (PyList [S ! j])))
   \<and> (get_layer_index S (KStr A) = Inr (int i) \<and> get_layer_index S (KStr B) = Inr (int j)
        \<and> j < i \<longrightarrow>
      get_item Seq S (KSlice (Some (KStr A)) (Some (KStr B))) = Inr (PyList []))
   \<and> (j \<le> length S \<longrightarrow>
      get_item Seq S (KSlice (Some (KInt (int i))) (Some (KInt (int j)))) =
        (if Suc i < j
         then bind_err (Seq (map ((!) S) [i..<j])) (\<lambda>model. Inr (Sequential model))
         else Inr (PyList (map ((!) S) [i..<j]))))
   \<and> get_item Seq S (KSlice None stop) = get_item Seq S (KSlice (Some (KInt 0)) stop)
   \<and> get_item Seq S (KSlice start None) =
      get_item Seq S (KSlice start (Some (KInt (int (length S)))))
   \<and> (j \<le> length S \<longrightarrow>
      get_item Seq S (KSlice None (Some (KInt (int j)))) =
        (if 1 < j
         then bind_err (Seq (map ((!) S) [0..<j])) (\<lambda>model. Inr (Sequential model))
         else Inr (PyList (map ((!) S) [0..<j]))))
   \<and> get_item Seq S (KSlice (Some (KInt (int i))) None) =
        (if Suc i < length S
         then bind_err (Seq (map ((!) S) [i..<length S])) (\<lambda>model. Inr (Sequential model))
         else Inr (PyList (map ((!) S) [i..<length S])))"
proof (intro conjI impI)
  assume "get_layer_index S (KStr B) = Inr b"
  then show "get_item Seq S (KSlice start (Some (KStr B))) =
             get_item Seq S (KSlice start (Some (KInt (b + 1))))"
    by (simp only: get_item_slice slice_layers_str_stop)
next
  assume h: "get_layer_index S (KStr A) = Inr (int i) \<and>
             get_layer_index S (KStr B) = Inr (int j) \<and> i \<le> j"
  then have upt: "[i..<Suc j] = [i..<j] @ [j]" by simp
  from h have "get_item Seq S (KSlice (Some (KStr A)) (Some (KStr B))) =
           (if i < j
            then bind_err (Seq (map ((!) S) [i..<Suc j])) (\<lambda>model. Inr (Sequential model))
            else Inr (PyList (map ((!) S) [i..<Suc j])))"
    by (intro get_item_names) simp_all
  with h show "get_item Seq S (KSlice (Some (KStr A)) (Some (KStr B))) =
        (if i < j
         then bind_err (Seq (map ((!) S) [i..<j] @ [S ! j])) (\<lambda>model. Inr (Sequential model))
         else Inr (PyList [S ! j]))"
    by (simp only: upt) auto
next
  assume h: "get_layer_index S (KStr A) = Inr (int i) \<and>
             get_layer_index S (KStr B) = Inr (int j) \<and> j < i"
  then have "get_item Seq S (KSlice (Some (KStr A)) (Some (KStr B))) =
           (if i < j
            then bind_err (Seq (map ((!) S) [i..<Suc j])) (\<lambda>model. Inr (Sequential model))
            else Inr (PyList (map ((!) S) [i..<Suc j])))"
    by (intro get_item_names) simp_all
  with h show "get_item Seq S (KSlice (Some (KStr A)) (Some (KStr B))) = Inr (PyList [])"
    by simp
next
  assume "j \<le> length S"
  then show "get_item Seq S (KSlice (Some (KInt (int i))) (Some (KInt (int j)))) =
        (if Suc i < j
         then bind_err (Seq (map ((!) S) [i..<j])) (\<lambda>model. Inr (Sequential model))
         else Inr (PyList (map ((!) S) [i..<j])))"
    by (rule get_item_ints)
next
  show "get_item Seq S (KSlice None stop) = get_item Seq S (KSlice (Some (KInt 0)) stop)"
    by (simp only: get_item_slice slice_layers_no_start)
next
  show "get_item Seq S (KSlice start None) =
        get_item Seq S (KSlice start (Some (KInt (int (length S)))))"
    by (simp only: get_item_slice slice_layers_no_stop)
next
  assume "j \<le> length S"
  then have "get_item Seq S (KSlice (Some (KInt (int 0))) (Some (KInt (int j)))) =
        (if Suc 0 < j
         then bind_err (Seq (map ((!) S) [0..<j])) (\<lambda>model. Inr (Sequential model))
         else Inr (PyList (map ((!) S) [0..<j])))"
    by (rule get_item_ints)
  then show "get_item Seq S (KSlice None (Some (KInt (int j)))) =
        (if 1 < j
         then bind_err (Seq (map ((!) S) [0..<j])) (\<lambda>model. Inr (Sequential model))
         else Inr (PyList (map ((!) S) [0..<j])))"
    by (simp add: get_item_slice slice_layers_no_start)
next
  have "get_item Seq S (KSlice (Some (KInt (int i))) (Some (KInt (int (length S))))) =
        (if Suc i < length S
         then bind_err (Seq (map ((!) S) [i..<length S])) (\<lambda>model. Inr (Sequential model))
         else Inr (PyList (map ((!) S) [i..<length S])))"
    by (rule get_item_ints) simp
  then show "get_item Seq S (KSlice (Some (KInt (int i))) None) =
        (if Suc i < length S
         then bind_err (Seq (map ((!) S) [i..<length S])) (\<lambda>model. Inr (Sequential model))
         else Inr (PyList (map ((!) S) [i..<length S])))"
    by (simp only: get_item_slice slice_layers_no_stop)
qed

text \<open>
  Claim C7, amended, at concrete inputs: on four dummy layers, \<open>[1:'c']\<close> is \<open>[1:3]\<close>,
  \<open>['b':'c']\<close> is a \<open>Sequential\<close> of the layers \<open>b\<close> and \<open>c\<close>, \<open>['c':'a']\<close> is empty,
  \<open>[1:2]\<close> holds the layer \<open>b\<close> alone and \<open>[:2]\<close> is a \<open>Sequential\<close> of \<open>a\<close> and \<open>b\<close>.
\<close>

theorem slice_bounds_witness:
  "get_item unique_names [dummy ''a'' 1, dummy ''b'' 2, dummy ''c'' 3, dummy ''d'' 4]
       (KSlice (Some (KInt 1)) (Some (KStr ''c'')))
     = get_item unique_names [dummy ''a'' 1, dummy ''b'' 2, dummy ''c'' 3, dummy ''d'' 4]
         (KSlice (Some (KInt 1)) (Some (KInt 3)))
   \<and> get_item unique_names [dummy ''a'' 1, dummy ''b'' 2, dummy ''c'' 3, dummy ''d'' 4]
        (KSlice (Some (KStr ''b'')) (Some (KStr ''c'')))
     = Inr (Sequential [dummy ''b'' 2, dummy ''c'' 3])
   \<and> get_item unique_names [dummy ''a'' 1, dummy ''b'' 2, dummy ''c'' 3, dummy ''d'' 4]
        (KSlice (Some (KStr ''c'')) (Some (KStr ''a''))) = Inr (PyList [])
   \<and> get_item unique_names [dummy ''a'' 1, dummy ''b'' 2, dummy ''c'' 3, dummy ''d'' 4]
        (KSlice (Some (KInt 1)) (Some (KInt 2))) = Inr (PyList [dummy ''b'' 2])
   \<and> get_item unique_names [dummy ''a'' 1, dummy ''b'' 2, dummy ''c'' 3, dummy ''d'' 4]
        (KSlice None (Some (KInt 2))) = Inr (Sequential [dummy ''a'' 1, dummy ''b'' 2])"
proof -
  note fwd = slice_bounds
          [where S = "[dummy ''a'' 1, dummy ''b'' 2, dummy ''c'' 3, dummy ''d'' 4]"
             and Seq = unique_names and B = "''c''" and b = 2 and A = "''b''" and i = 1 and j = 2
             and start = "Some (KInt 1)" and stop = "Some (KInt 3)"]
  note rev = slice_bounds
          [where S = "[dummy ''a'' 1, dummy ''b'' 2, dummy ''c'' 3, dummy ''d'' 4]"
             and Seq = unique_names and B = "''a''" and b = 0 and A = "''c''" and i = 2 and j = 0
             and start = "Some (KInt 1)" and stop = "Some (KInt 3)"]
  have idx: "get_layer_index [dummy ''a'' 1, dummy ''b'' 2, dummy ''c'' 3, dummy ''d'' 4]
               (KStr ''a'') = Inr 0"
    "get_layer_index [dummy ''a'' 1, dummy ''b'' 2, dummy ''c'' 3, dummy ''d'' 4]
               (KStr ''b'') = Inr 1"
    "get_layer_index [dummy ''a'' 1, dummy ''b'' 2, dummy ''c'' 3, dummy ''d'' 4]
               (KStr ''c'') = Inr 2"
    by (simp_all add: get_layer_index_def)
  note t = conjunct2 [THEN conjunct2]
  from fwd [THEN conjunct1] idx have
    "get_item unique_names [dummy ''a'' 1, dummy ''b'' 2, dummy ''c'' 3, dummy ''d'' 4]
       (KSlice (Some (KInt 1)) (Some (KStr ''c'')))
     = get_item unique_names [dummy ''a'' 1, dummy ''b'' 2, dummy ''c'' 3, dummy ''d'' 4]
         (KSlice (Some (KInt 1)) (Some (KInt 3)))"
    by simp
  moreover from fwd [THEN conjunct2, THEN conjunct1] idx have
    "get_item unique_names [dummy ''a'' 1, dummy ''b'' 2, dummy ''c'' 3, dummy ''d'' 4]
        (KSlice (Some (KStr ''b'')) (Some (KStr ''c'')))
     = Inr (Sequential [dummy ''b'' 2, dummy ''c'' 3])"
    by (simp add: upt_conv_Cons bind_err_simps)
  moreover from rev [THEN t, THEN conjunct1] idx have
    "get_item unique_names [dummy ''a'' 1, dummy ''b'' 2, dummy ''c'' 3, dummy ''d'' 4]
        (KSlice (Some (KStr ''c'')) (Some (KStr ''a''))) = Inr (PyList [])"
    by simp
  moreover from fwd [THEN t, THEN conjunct2, THEN conjunct1] have
    "get_item unique_names [dummy ''a'' 1, dummy ''b'' 2, dummy ''c'' 3, dummy ''d'' 4]
        (KSlice (Some (KInt 1)) (Some (KInt 2))) = Inr (PyList [dummy ''b'' 2])"
    by (simp add: upt_conv_Cons)
  moreover from fwd [THEN t, THEN t, THEN t, THEN conjunct1] have
    "get_item unique_names [dummy ''a'' 1, dummy ''b'' 2, dummy ''c'' 3, dummy ''d'' 4]
        (KSlice None (Some (KInt 2))) = Inr (Sequential [dummy ''a'' 1, dummy ''b'' 2])"
    by (simp add: upt_conv_Cons bind_err_simps)
  ultimately show ?thesis by blast
qed

text \<open>
  Claim C3, as stated: a slice with exactly one element gives the bare layer, and a
  longer one is always wrapped into a new sequential unit. On three layers, the slice
  \<open>[1:2]\<close> gives the one-element list holding the layer at position 1, which is not that
  layer; and with a constructor that, as Keras's does, refuses a repeated layer name, the
  slice \<open>[:]\<close> of layers named \<open>conv, pool, conv\<close> raises the constructor's ValueError.
\<close>

theorem get_item_single_slice_counterexample:
  "get_item unique_names [dummy ''a'' 1, dummy ''b'' 2, dummy ''c'' 3]
       (KSlice (Some (KInt 1)) (Some (KInt 2)))
     = Inr (PyList [dummy ''b'' 2])
   \<and> get_item unique_names [dummy ''a'' 1, dummy ''b'' 2, dummy ''c'' 3]
       (KSlice (Some (KInt 1)) (Some (KInt 2)))
     \<noteq> Inr (Layer (dummy ''b'' 2))
   \<and> get_item unique_names [dummy ''conv'' 1, dummy ''pool'' 2, dummy ''conv'' 3]
       (KSlice None None)
     = Inl (ValueError ''All layers added to a Sequential model should have unique names'')"
  by (simp add: get_item_def slice_layers_def py_getslice_def slice_bound_def bind_err_simps)

text \<open>
  Claim C3, amended: for a slice key, when the sub-sequence \<open>layers[start:stop]\<close> has
  exactly one element, \<open>get_item\<close> returns it as that one-element list (so \<open>[i:i+1]\<close> is
  the list holding the layer at \<open>i\<close>); when it has more than one element, \<open>get_item\<close>
  hands it to Keras's \<open>Sequential\<close> constructor and returns the new model, or raises what
  the constructor raises.
\<close>

theorem get_item_slice_wrapping:
  "(slice_layers S start stop = Inr [l] \<longrightarrow> get_item Seq S (KSlice start stop) = Inr (PyList [l]))
   \<and> (slice_layers S start stop = Inr sub \<and> 1 < length sub \<longrightarrow>
        get_item Seq S (KSlice start stop) =
          bind_err (Seq sub) (\<lambda>model. Inr (Sequential model)))
   \<and> (i < length S \<longrightarrow>
        get_item Seq S (KSlice (Some (KInt (int i))) (Some (KInt (int i + 1)))) =
          Inr (PyList [S ! i]))
   \<and> (Suc i < j \<and> j \<le> length S \<longrightarrow>
        get_item Seq S (KSlice (Some (KInt (int i))) (Some (KInt (int j)))) =
          bind_err (Seq (map ((!) S) [i..<j])) (\<lambda>model. Inr (Sequential model)))"
proof (intro conjI impI)
  assume "slice_layers S start stop = Inr [l]"
  then show "get_item Seq S (KSlice start stop) = Inr (PyList [l])"
    by (simp add: get_item_slice bind_err_simps)
next
  assume "slice_layers S start stop = Inr sub \<and> 1 < length sub"
  then show "get_item Seq S (KSlice start stop) =
             bind_err (Seq sub) (\<lambda>model. Inr (Sequential model))"
    by (simp add: get_item_slice bind_err_simps)
next
  assume "i < length S"
  then have "get_item Seq S (KSlice (Some (KInt (int i))) (Some (KInt (int (Suc i))))) =
        (if Suc i < Suc i
         then bind_err (Seq (map ((!) S) [i..<Suc i])) (\<lambda>model. Inr (Sequential model))
         else Inr (PyList (map ((!) S) [i..<Suc i])))"
    by (intro get_item_ints) simp
  then show "get_item Seq S (KSlice (Some (KInt (int i))) (Some (KInt (int i + 1)))) =
             Inr (PyList [S ! i])"
    by (simp add: add.commute)
next
  assume h: "Suc i < j \<and> j \<le> length S"
  then have "get_item Seq S (KSlice (Some (KInt (int i))) (Some (KInt (int j)))) =
        (if Suc i < j
         then bind_err (Seq (map ((!) S) [i..<j])) (\<lambda>model. Inr (Sequential model))
         else Inr (PyList (map ((!) S) [i..<j])))"
    by (intro get_item_ints) simp
  with h show "get_item Seq S (KSlice (Some (KInt (int i))) (Some (KInt (int j)))) =
          bind_err (Seq (map ((!) S) [i..<j])) (\<lambda>model. Inr (Sequential model))"
    by simp
qed

text \<open>
  Claim C3, amended, at concrete inputs: on three dummy layers, \<open>[2:]\<close> and \<open>[1:2]\<close>
  are one-element lists, \<open>['a':'b']\<close> is a \<open>Sequential\<close> of two layers and \<open>[0:3]\<close> one of
  three.
\<close>

theorem get_item_slice_wrapping_witness:
  "get_item unique_names [dummy ''a'' 1, dummy ''b'' 2, dummy ''c'' 3] (KSlice (Some (KInt 2)) None)
     = Inr (PyList [dummy ''c'' 3])
   \<and> get_item unique_names [dummy ''a'' 1, dummy ''b'' 2, dummy ''c'' 3]
       (KSlice (Some (KStr ''a'')) (Some (KStr ''b'')))
     = Inr (Sequential [dummy ''a'' 1, dummy ''b'' 2])
   \<and> get_item unique_names [dummy ''a'' 1, dummy ''b'' 2, dummy ''c'' 3]
       (KSlice (Some (KInt 1)) (Some (KInt 2)))
     = Inr (PyList [dummy ''b'' 2])
   \<and> get_item unique_names [dummy ''a'' 1, dummy ''b'' 2, dummy ''c'' 3]
       (KSlice (Some (KInt 0)) (Some (KInt 3)))
     = Inr (Sequential [dummy ''a'' 1, dummy ''b'' 2, dummy ''c'' 3])"
proof -
  note one = get_item_slice_wrapping
          [where S = "[dummy ''a'' 1, dummy ''b'' 2, dummy ''c'' 3]" and Seq = unique_names
             and start = "Some (KInt 2)" and stop = None and l = "dummy ''c'' 3"
             and sub = "[dummy ''c'' 3]" and i = 1 and j = 2]
  note many = get_item_slice_wrapping
          [where S = "[dummy ''a'' 1, dummy ''b'' 2, dummy ''c'' 3]" and Seq = unique_names
             and start = "Some (KStr ''a'')" and stop = "Some (KStr ''b'')" and l = "dummy ''c'' 3"
             and sub = "[dummy ''a'' 1, dummy ''b'' 2]" and i = 0 and j = 3]
  have sl: "slice_layers [dummy ''a'' 1, dummy ''b'' 2, dummy ''c'' 3] (Some (KInt 2)) None
              = Inr [dummy ''c'' 3]"
    "slice_layers [dummy ''a'' 1, dummy ''b'' 2, dummy ''c'' 3] (Some (KStr ''a''))
        (Some (KStr ''b'')) = Inr [dummy ''a'' 1, dummy ''b'' 2]"
    by (simp_all add: slice_layers_def py_getslice_def slice_bound_def bind_err_simps
          get_layer_index_def)
  from one sl have
    "get_item unique_names [dummy ''a'' 1, dummy ''b'' 2, dummy ''c'' 3]
       (KSlice (Some (KInt 2)) None) = Inr (PyList [dummy ''c'' 3])"
    by simp
  moreover from many sl have
    "get_item unique_names [dummy ''a'' 1, dummy ''b'' 2, dummy ''c'' 3]
       (KSlice (Some (KStr ''a'')) (Some (KStr ''b'')))
     = Inr (Sequential [dummy ''a'' 1, dummy ''b'' 2])"
    by (simp add: bind_err_simps)
  moreover from one have
    "get_item unique_names [dummy ''a'' 1, dummy ''b'' 2, dummy ''c'' 3]
       (KSlice (Some (KInt 1)) (Some (KInt 2))) = Inr (PyList [dummy ''b'' 2])"
    by simp
  moreover from many have
    "get_item unique_names [dummy ''a'' 1, dummy ''b'' 2, dummy ''c'' 3]
       (KSlice (Some (KInt 0)) (Some (KInt 3)))
     = Inr (Sequential [dummy ''a'' 1, dummy ''b'' 2, dummy ''c'' 3])"
    by (simp add: upt_conv_Cons bind_err_simps)
  ultimately show ?thesis by blast
qed

section \<open>Construction of the networks\<close>

text \<open>
  Claim C9: for an architecture name that is none of \<open>'VGG16'\<close>, \<open>'VGG-16'\<close> and
  \<open>'VGG_16'\<close>, \<open>BaseNet.__init__\<close> raises the TypeError (UnsupportedArchitecture) and
  has built nothing before: no architecture, no layer, no model.
\<close>

theorem BaseNet_unknown_architecture:
  "architecture \<notin> {''VGG16'', ''VGG-16'', ''VGG_16''} \<Longrightarrow>
     BaseNet_init k architecture input_shape =
       ([], Inl (TypeError ''Wrong name for the base architecture''))"
  by (simp add: BaseNet_init_def)

text \<open>
  Claim C9 at a concrete input: the name \<open>'ResNet50'\<close>.
\<close>

theorem BaseNet_unknown_architecture_witness:
  "''ResNet50'' \<notin> {''VGG16'', ''VGG-16'', ''VGG_16''} \<and>
   (\<forall>k input_shape. BaseNet_init k ''ResNet50'' input_shape =
       ([], Inl (TypeError ''Wrong name for the base architecture'')))"
proof (intro conjI allI)
  show "''ResNet50'' \<notin> {''VGG16'', ''VGG-16'', ''VGG_16''}" by simp
  then show "BaseNet_init k ''ResNet50'' input_shape =
       ([], Inl (TypeError ''Wrong name for the base architecture''))"
    for k :: "('a, 'b, 'c, 'd) keras" and input_shape :: 'c
    by (rule BaseNet_unknown_architecture)
qed



end
